theory Spec2Isabelle
  imports Main "HOL-Library.AList"
begin

section \<open>Configuration values, errors and external calls\<close>

text \<open>
  The configuration is a nested Python mapping with string keys. Its values are the
  ones a configuration file produces: \<open>None\<close>, booleans, numbers, strings, lists and
  mappings. A mapping is an association list read with \<open>map_of\<close>.
\<close>

datatype pyval =
    PNone
  | PBool bool
  | PInt int
  | PStr string
  | PList "pyval list"
  | PDict "(string \<times> pyval) list"

text \<open>
  An error message is kept as the pieces of the f-string that builds it: literal text
  and formatted values. \<open>f"Model type {model_type} not recognized."\<close> is
  \<open>[Text ''Model type '', Format model_type, Text '' not recognized.'']\<close>.
\<close>

datatype piece = Text string | Format pyval

datatype error =
    ValueError "piece list"
  | TypeError
  | KeyError string
  | ExternalError string

text \<open>
  The calls that leave the program: fetching a packaged model or its metadata from the
  registry, and reading the two auxiliary files. A call is recorded when it is made,
  whether it succeeds or raises.
\<close>

datatype call =
    Load_model pyval
  | Get_model_info pyval
  | Read_class_weights pyval
  | Read_cost_matrix pyval

text \<open>
  \<open>mlflow.pyfunc.load_model\<close> returns a wrapper; line 38 of \<open>model.py\<close> reads the
  estimator out of it (\<open>_PyFuncModel__model_impl.python_model.model\<close>). The estimator,
  the class-weights table and the cost matrix are opaque objects of type \<open>'x\<close>.
\<close>

datatype 'x pyfunc_model = PyFuncModel (python_model_model: 'x)

record model_info =
  run_id :: string

text \<open>
  What a function leaves behind: its result (a value or the exception raised), the
  external calls it made, in order, and the configuration object it was given as it
  stands when the function exits.
\<close>

record 'a outcome =
  result :: "error + 'a"
  calls :: "call list"
  config_after :: pyval

definition raises :: "error \<Rightarrow> call list \<Rightarrow> pyval \<Rightarrow> 'a outcome" where
  "raises e cs config = \<lparr>result = Inl e, calls = cs, config_after = config\<rparr>"

definition returns :: "'a \<Rightarrow> call list \<Rightarrow> pyval \<Rightarrow> 'a outcome" where
  "returns v cs config = \<lparr>result = Inr v, calls = cs, config_after = config\<rparr>"

section \<open>Python operations used by the program\<close>

text \<open>
  Modelled from the spec: \<open>mltools.utils.get_nested\<close> is not among the sources. The
  spec calls it a nested-key lookup, and the program calls it as
  \<open>get_nested(mapping, keys, default)\<close>: it follows the keys through nested mappings
  and gives the default when a key is missing. What it does when the value reached is
  not a mapping is not stated: with \<open>strict = False\<close> it gives the default, with
  \<open>strict = True\<close> it raises, as indexing would. Every theorem below holds for both.
\<close>

fun get_nested :: "bool \<Rightarrow> pyval \<Rightarrow> string list \<Rightarrow> pyval \<Rightarrow> error + pyval" where
  "get_nested strict v [] d = Inr v"
| "get_nested strict (PDict kvs) (k # ks) d =
     (case map_of kvs k of None \<Rightarrow> Inr d | Some v \<Rightarrow> get_nested strict v ks d)"
| "get_nested strict v (k # ks) d = (if strict then Inl TypeError else Inr d)"

text \<open>Indexing \<open>d[k]\<close> with a string key: \<open>KeyError\<close> on a missing key, \<open>TypeError\<close>
  on a value that is not a mapping.\<close>

fun py_getitem :: "pyval \<Rightarrow> string \<Rightarrow> error + pyval" where
  "py_getitem (PDict kvs) k = (case map_of kvs k of None \<Rightarrow> Inl (KeyError k) | Some v \<Rightarrow> Inr v)"
| "py_getitem v k = Inl TypeError"

text \<open>Keyword expansion \<open>**parameters\<close>: the argument must be a mapping.\<close>

fun kwargs :: "pyval \<Rightarrow> error + (string \<times> pyval) list" where
  "kwargs (PDict kvs) = Inr kvs"
| "kwargs v = Inl TypeError"

text \<open>Iteration \<open>for x in v\<close>: the elements of a list, the keys of a mapping, the
  characters of a string; anything else is not iterable.\<close>

fun py_iter :: "pyval \<Rightarrow> error + pyval list" where
  "py_iter (PList xs) = Inr xs"
| "py_iter (PDict kvs) = Inr (map (\<lambda>kv. PStr (fst kv)) kvs)"
| "py_iter (PStr s) = Inr (map (\<lambda>c. PStr [c]) s)"
| "py_iter v = Inl TypeError"

section \<open>The objects built from the external classes\<close>

text \<open>
  Modelled from the spec: the classes of \<open>mltools.architecture\<close> are not among the
  sources, and those of \<open>sklearn\<close> are a library. The spec treats them as opaque
  collaborators that the program constructs with keyword parameters taken verbatim from
  the configuration. An object is represented by the constructor call that makes it,
  with the arguments the program passes. Whether a constructor accepts its keyword
  arguments, and what it does to the objects it is handed, belongs to the environment
  below.
\<close>

datatype baseline =
    KNeighborsClassifier "(string \<times> pyval) list"
  | SVC "(string \<times> pyval) list"
  | RandomForestClassifier "(string \<times> pyval) list"

datatype preprocessor =
    TextPreprocessor "(string \<times> pyval) list"
  | Relabeller "(string \<times> pyval) list"

datatype wrapped =
    FunctionTransformer_preprocess_iterable preprocessor "(string \<times> pyval) list"
  | Plain preprocessor

datatype 'x model =
    Registry_model 'x
  | TF_IDF_Classifier baseline pyval "'x option"
  | TF_IDF_XGBoost_Classifier pyval pyval "'x option" "'x option"
  | PredictTransformerWrapper wrapped bool bool

text \<open>
  Modelled from the spec: \<open>TF_IDF_Classifier.set_class_weights\<close> is not among the sources.
  The spec says that the class weights read at setup time are attached to the model and
  owned by it from then on: the call stores the table in the classifier.
\<close>

fun set_class_weights :: "'x \<Rightarrow> 'x model \<Rightarrow> 'x model" where
  "set_class_weights w (TF_IDF_Classifier b n cw) = TF_IDF_Classifier b n (Some w)"
| "set_class_weights w m = m"

text \<open>\<open>SVC(probability = True, **parameters)\<close>: a second \<open>probability\<close> among the
  parameters is a \<open>TypeError\<close> of the call itself.\<close>

definition svc_call :: "(string \<times> pyval) list \<Rightarrow> error + baseline" where
  "svc_call kw =
     (if ''probability'' \<in> fst ` set kw then Inl TypeError
      else Inr (SVC ((''probability'', PBool True) # kw)))"

section \<open>The collaborators\<close>

text \<open>
  The callables outside this program that are handed a part of the configuration, or an
  object built from one: the registry calls get \<open>model.uri\<close>, the constructors get
  \<open>model.name\<close>, \<open>model.parameters\<close> or the values of its entries, and
  \<open>set_class_weights\<close> is a method of an object that holds them.
\<close>

datatype collaborator =
    Mlflow_pyfunc_load_model
  | Mlflow_get_model_info
  | KNeighborsClassifier_init
  | SVC_init
  | RandomForestClassifier_init
  | TF_IDF_Classifier_init
  | TF_IDF_Classifier_set_class_weights
  | TF_IDF_XGBoost_Classifier_init
  | TextPreprocessor_init
  | Relabeller_init
  | FunctionTransformer_init
  | PredictTransformerWrapper_init

text \<open>
  The environment holds what this program does not define: the registry, the file
  readers of \<open>mltools.utils\<close>, \<open>os.path.join\<close>, and the one open point of
  \<open>get_nested\<close> (see above). Two fields say what a constructor called with keyword
  arguments raises, if anything: a keyword the constructor does not have is a
  \<open>TypeError\<close> of the library, not of this program. The field \<open>leaves\<close> says in which
  state a collaborator leaves an object it is handed: Python passes references, so a
  callee can change a mutable part of the configuration. The file readers get a path
  that \<open>os.path.join\<close> has just built, and \<open>os.path.join\<close> and \<open>get_nested\<close> only read
  their arguments.
\<close>

record 'x env =
  strict_lookup :: bool
  pyfunc_load_model :: "pyval \<Rightarrow> error + 'x pyfunc_model"
  get_model_info :: "pyval \<Rightarrow> error + model_info"
  os_path_join :: "pyval \<Rightarrow> pyval \<Rightarrow> error + pyval"
  read_class_weights_from_file :: "pyval \<Rightarrow> error + 'x"
  read_cost_matrix_from_file :: "pyval \<Rightarrow> error + 'x"
  sklearn_raises :: "baseline \<Rightarrow> error option"
  architecture_raises :: "preprocessor \<Rightarrow> error option"
  leaves :: "collaborator \<Rightarrow> pyval \<Rightarrow> pyval"

section \<open>The configuration as a shared object\<close>

text \<open>
  The object at a path of the configuration, if the path leads to one, and the
  configuration with the object at a path replaced. A value that \<open>get_nested\<close> finds in
  the configuration is that object itself; a default is a fresh object, and no part of
  the configuration.
\<close>

fun at_path :: "pyval \<Rightarrow> string list \<Rightarrow> pyval option" where
  "at_path v [] = Some v"
| "at_path (PDict kvs) (k # ks) = (case map_of kvs k of None \<Rightarrow> None | Some v \<Rightarrow> at_path v ks)"
| "at_path v (k # ks) = None"

fun put_nested :: "pyval \<Rightarrow> string list \<Rightarrow> pyval \<Rightarrow> pyval" where
  "put_nested v [] new = new"
| "put_nested (PDict kvs) (k # ks) new =
     (case map_of kvs k of
        None \<Rightarrow> PDict kvs
      | Some v \<Rightarrow> PDict (AList.update k (put_nested v ks new) kvs))"
| "put_nested v (k # ks) new = v"

text \<open>
  A collaborator is handed the object at a path (\<open>f(x)\<close>), or the values of the mapping
  at a path (\<open>f(**x)\<close>: the mapping is copied, its values are not). The configuration
  afterwards has them as the collaborator leaves them.
\<close>

definition handed :: "'x env \<Rightarrow> collaborator \<Rightarrow> string list \<Rightarrow> pyval \<Rightarrow> pyval" where
  "handed env c path config =
     (case at_path config path of
        None \<Rightarrow> config
      | Some v \<Rightarrow> put_nested config path (leaves env c v))"

definition handed_values :: "'x env \<Rightarrow> collaborator \<Rightarrow> string list \<Rightarrow> pyval \<Rightarrow> pyval" where
  "handed_values env c path config =
     (case at_path config path of
        Some (PDict kw) \<Rightarrow>
          put_nested config path (PDict (map (\<lambda>kv. (fst kv, leaves env c (snd kv))) kw))
      | _ \<Rightarrow> config)"

text \<open>A call that gets \<open>model_name\<close> and an object built from \<open>**parameters\<close>.\<close>

definition handed_model :: "'x env \<Rightarrow> collaborator \<Rightarrow> pyval \<Rightarrow> pyval" where
  "handed_model env c config =
     handed_values env c [''model'', ''parameters''] (handed env c [''model'', ''name''] config)"

text \<open>A constructor call with keyword arguments returns the object or raises.\<close>

definition construct :: "('a \<Rightarrow> error option) \<Rightarrow> 'a \<Rightarrow> error + 'a" where
  "construct rejects obj = (case rejects obj of Some e \<Rightarrow> Inl e | None \<Rightarrow> Inr obj)"

section \<open>The program\<close>

subsection \<open>\<open>load_model\<close> (lines 11 to 38)\<close>

definition load_model :: "'x env \<Rightarrow> pyval \<Rightarrow> 'x outcome" where
  "load_model env config =
     (case get_nested (strict_lookup env) config [''model'', ''uri''] PNone of
        Inl e \<Rightarrow> raises e [] config
      | Inr model_uri \<Rightarrow>
          if model_uri = PNone
          then raises (ValueError [Text ''Model uri not provided.'']) [] config
          else (let after = handed env Mlflow_pyfunc_load_model [''model'', ''uri''] config
                in case pyfunc_load_model env model_uri of
                     Inl e \<Rightarrow> raises e [Load_model model_uri] after
                   | Inr pyfunc_model \<Rightarrow>
                       returns (python_model_model pyfunc_model) [Load_model model_uri] after))"

subsection \<open>\<open>setup_model\<close> (lines 40 to 120)\<close>

text \<open>Lines 67 to 81: the class-weights options. The result is \<open>None\<close> when the
  configuration has no \<open>model.class_weights\<close> (\<open>has_class_weights\<close> stays false),
  and the table read from the file otherwise.\<close>

definition class_weights_options ::
  "'x env \<Rightarrow> pyval \<Rightarrow> pyval \<Rightarrow> (error + 'x option) \<times> call list" where
  "class_weights_options env config path_prefix =
     (case get_nested (strict_lookup env) config [''model'', ''class_weights''] PNone of
        Inl e \<Rightarrow> (Inl e, [])
      | Inr class_weights_config_dict \<Rightarrow>
          if class_weights_config_dict = PNone then (Inr None, [])
          else
            (case get_nested (strict_lookup env) class_weights_config_dict
                    [''relative_or_absolute''] (PStr ''absolute'') of
               Inl e \<Rightarrow> (Inl e, [])
             | Inr class_weights_relative_or_absolute \<Rightarrow>
                 (case get_nested (strict_lookup env) class_weights_config_dict
                         [''file_path''] PNone of
                    Inl e \<Rightarrow> (Inl e, [])
                  | Inr class_weights_file_path \<Rightarrow>
                      if class_weights_file_path = PNone
                      then (Inl (ValueError [Text ''Class weights file path not provided.'']), [])
                      else
                        (case os_path_join env path_prefix class_weights_file_path of
                           Inl e \<Rightarrow> (Inl e, [])
                         | Inr class_weights_full_file_path \<Rightarrow>
                             (case read_class_weights_from_file env class_weights_full_file_path of
                                Inl e \<Rightarrow> (Inl e, [Read_class_weights class_weights_full_file_path])
                              | Inr class_weights_dict \<Rightarrow>
                                  (Inr (Some class_weights_dict),
                                   [Read_class_weights class_weights_full_file_path]))))))"

text \<open>Lines 97 to 102: the cost matrix of the \<open>TF-IDF-XGBoost\<close> branch.\<close>

definition load_cost_matrix ::
  "'x env \<Rightarrow> pyval \<Rightarrow> pyval \<Rightarrow> (error + 'x option) \<times> call list" where
  "load_cost_matrix env config path_prefix =
     (case get_nested (strict_lookup env) config [''model'', ''cost_matrix''] PNone of
        Inl e \<Rightarrow> (Inl e, [])
      | Inr cost_matrix_filepath \<Rightarrow>
          if cost_matrix_filepath = PNone then (Inr None, [])
          else
            (case os_path_join env path_prefix cost_matrix_filepath of
               Inl e \<Rightarrow> (Inl e, [])
             | Inr full \<Rightarrow>
                 (case read_cost_matrix_from_file env full of
                    Inl e \<Rightarrow> (Inl e, [Read_cost_matrix full])
                  | Inr cost_matrix \<Rightarrow> (Inr (Some cost_matrix), [Read_cost_matrix full]))))"

text \<open>Line 109: \<open>config['model']['parameters']['preprocess_stack']\<close>.\<close>

definition preprocess_stack_of :: "pyval \<Rightarrow> error + pyval" where
  "preprocess_stack_of config =
     (case py_getitem config ''model'' of
        Inl e \<Rightarrow> Inl e
      | Inr m \<Rightarrow>
          (case py_getitem m ''parameters'' of
             Inl e \<Rightarrow> Inl e
           | Inr p \<Rightarrow> py_getitem p ''preprocess_stack''))"

text \<open>Lines 83 to 120: the dispatch on \<open>model_type\<close>, in the order of the source. The
  result comes with the external calls made and the configuration as the branch leaves
  it. The \<open>TF-IDF-KNN\<close> branch has no call of \<open>set_class_weights\<close>. Line 109 reads the
  configuration again, after \<open>TextPreprocessor\<close> has had the values of the parameters.
  On the \<open>Relabeller\<close> branch line 114 builds a \<open>FunctionTransformer\<close> that nothing uses;
  the wrapper of line 115 holds the \<open>Relabeller\<close> itself.\<close>

definition build_model ::
  "'x env \<Rightarrow> pyval \<Rightarrow> pyval \<Rightarrow> pyval \<Rightarrow> pyval \<Rightarrow> pyval \<Rightarrow> 'x option
     \<Rightarrow> (error + 'x model) \<times> call list \<times> pyval" where
  "build_model env config path_prefix model_type model_name parameters class_weights_dict =
     (if model_type = PStr ''TF-IDF-KNN'' then
        (case kwargs parameters of
           Inl e \<Rightarrow> (Inl e, [], config)
         | Inr kw \<Rightarrow>
             (let after = handed_values env KNeighborsClassifier_init
                            [''model'', ''parameters''] config
              in case construct (sklearn_raises env) (KNeighborsClassifier kw) of
                   Inl e \<Rightarrow> (Inl e, [], after)
                 | Inr baseline_classifier \<Rightarrow>
                     (Inr (TF_IDF_Classifier baseline_classifier model_name None), [],
                      handed_model env TF_IDF_Classifier_init after)))
      else if model_type = PStr ''TF-IDF-SVM'' then
        (case kwargs parameters of
           Inl e \<Rightarrow> (Inl e, [], config)
         | Inr kw \<Rightarrow>
             (case svc_call kw of
                Inl e \<Rightarrow> (Inl e, [], config)
              | Inr svc \<Rightarrow>
                  (let after = handed_values env SVC_init [''model'', ''parameters''] config
                   in case construct (sklearn_raises env) svc of
                        Inl e \<Rightarrow> (Inl e, [], after)
                      | Inr baseline_classifier \<Rightarrow>
                          (let model = TF_IDF_Classifier baseline_classifier model_name None;
                               built = handed_model env TF_IDF_Classifier_init after
                           in case class_weights_dict of
                                None \<Rightarrow> (Inr model, [], built)
                              | Some w \<Rightarrow>
                                  (Inr (set_class_weights w model), [],
                                   handed_model env TF_IDF_Classifier_set_class_weights
                                     built)))))
      else if model_type = PStr ''TF-IDF-RF'' then
        (case kwargs parameters of
           Inl e \<Rightarrow> (Inl e, [], config)
         | Inr kw \<Rightarrow>
             (let after = handed_values env RandomForestClassifier_init
                            [''model'', ''parameters''] config
              in case construct (sklearn_raises env) (RandomForestClassifier kw) of
                   Inl e \<Rightarrow> (Inl e, [], after)
                 | Inr baseline_classifier \<Rightarrow>
                     (let model = TF_IDF_Classifier baseline_classifier model_name None;
                          built = handed_model env TF_IDF_Classifier_init after
                      in case class_weights_dict of
                           None \<Rightarrow> (Inr model, [], built)
                         | Some w \<Rightarrow>
                             (Inr (set_class_weights w model), [],
                              handed_model env TF_IDF_Classifier_set_class_weights built))))
      else if model_type = PStr ''TF-IDF-XGBoost'' then
        (case load_cost_matrix env config path_prefix of
           (Inl e, cs) \<Rightarrow> (Inl e, cs, config)
         | (Inr cost_matrix, cs) \<Rightarrow>
             (Inr (TF_IDF_XGBoost_Classifier model_name parameters class_weights_dict cost_matrix),
              cs,
              handed env TF_IDF_XGBoost_Classifier_init [''model'', ''parameters'']
                (handed env TF_IDF_XGBoost_Classifier_init [''model'', ''name''] config)))
      else if model_type = PStr ''TextPreprocessor'' then
        (case kwargs parameters of
           Inl e \<Rightarrow> (Inl e, [], config)
         | Inr kw \<Rightarrow>
             (let after = handed_values env TextPreprocessor_init
                            [''model'', ''parameters''] config
              in case construct (architecture_raises env) (TextPreprocessor kw) of
                   Inl e \<Rightarrow> (Inl e, [], after)
                 | Inr preprocessor \<Rightarrow>
                     (case preprocess_stack_of after of
                        Inl e \<Rightarrow> (Inl e, [], after)
                      | Inr stack \<Rightarrow>
                          (Inr (PredictTransformerWrapper
                                  (FunctionTransformer_preprocess_iterable preprocessor
                                     [(''preprocess_stack'', stack)])
                                  True False), [],
                           handed_values env PredictTransformerWrapper_init
                             [''model'', ''parameters'']
                             (handed_values env FunctionTransformer_init
                                [''model'', ''parameters''] after)))))
      else if model_type = PStr ''Relabeller'' then
        (case kwargs parameters of
           Inl e \<Rightarrow> (Inl e, [], config)
         | Inr kw \<Rightarrow>
             (let after = handed_values env Relabeller_init [''model'', ''parameters''] config
              in case construct (architecture_raises env) (Relabeller kw) of
                   Inl e \<Rightarrow> (Inl e, [], after)
                 | Inr preprocessor \<Rightarrow>
                     (Inr (PredictTransformerWrapper (Plain preprocessor) False True), [],
                      handed_values env PredictTransformerWrapper_init
                        [''model'', ''parameters'']
                        (handed_values env FunctionTransformer_init
                           [''model'', ''parameters''] after))))
      else (Inl (ValueError [Text ''Model type '', Format model_type, Text '' not recognized.'']),
            [], config))"

text \<open>Lines 54 to 66, then the two parts above. Line 58 passes \<open>model_uri\<close> itself to
  \<open>load_model\<close>, as the source does: what \<open>load_model\<close> leaves of its argument is what
  the configuration then has at \<open>model.uri\<close>.\<close>

definition setup_model :: "'x env \<Rightarrow> pyval \<Rightarrow> 'x model outcome" where
  "setup_model env config =
     (case get_nested (strict_lookup env) config [''global'', ''root_path''] (PStr []) of
        Inl e \<Rightarrow> raises e [] config
      | Inr path_prefix \<Rightarrow>
     (case get_nested (strict_lookup env) config [''model'', ''uri''] PNone of
        Inl e \<Rightarrow> raises e [] config
      | Inr model_uri \<Rightarrow>
     if model_uri \<noteq> PNone
     then (let loaded = load_model env model_uri
           in \<lparr>result = map_sum id Registry_model (result loaded),
               calls = calls loaded,
               config_after = put_nested config [''model'', ''uri''] (config_after loaded)\<rparr>)
     else
     (case get_nested (strict_lookup env) config [''model'', ''type''] PNone of
        Inl e \<Rightarrow> raises e [] config
      | Inr model_type \<Rightarrow>
     if model_type = PNone
     then raises (ValueError [Text ''Model type not provided.'']) [] config
     else
     (case get_nested (strict_lookup env) config [''model'', ''name''] PNone of
        Inl e \<Rightarrow> raises e [] config
      | Inr model_name \<Rightarrow>
     (case get_nested (strict_lookup env) config [''model'', ''parameters''] (PDict []) of
        Inl e \<Rightarrow> raises e [] config
      | Inr parameters \<Rightarrow>
     (case class_weights_options env config path_prefix of
        (Inl e, cs) \<Rightarrow> raises e cs config
      | (Inr class_weights_dict, cs) \<Rightarrow>
     (case build_model env config path_prefix model_type model_name parameters
             class_weights_dict of
        (Inl e, cs', after) \<Rightarrow> raises e (cs @ cs') after
      | (Inr model, cs', after) \<Rightarrow> returns model (cs @ cs') after)))))))"

subsection \<open>The list and metadata helpers (lines 122 to 219)\<close>

text \<open>The comprehension of line 145: one \<open>load_model\<close> per element, on a fresh
  configuration \<open>{'model': {'uri': model_uri}}\<close>; the first exception ends it. The
  third component is the elements as the loop leaves them: an element is handed to the
  registry call through the fresh configuration.\<close>

definition uri_after :: "pyval \<Rightarrow> pyval \<Rightarrow> pyval" where
  "uri_after model_uri fresh =
     (case at_path fresh [''model'', ''uri''] of None \<Rightarrow> model_uri | Some v \<Rightarrow> v)"

fun load_each :: "'x env \<Rightarrow> pyval list \<Rightarrow> (error + 'x list) \<times> call list \<times> pyval list" where
  "load_each env [] = (Inr [], [], [])"
| "load_each env (model_uri # rest) =
     (let one = load_model env (PDict [(''model'', PDict [(''uri'', model_uri)])]);
          left = uri_after model_uri (config_after one)
      in case result one of
           Inl e \<Rightarrow> (Inl e, calls one, left # rest)
         | Inr m \<Rightarrow>
             (case load_each env rest of
                (Inl e, cs, after) \<Rightarrow> (Inl e, calls one @ cs, left # after)
              | (Inr ms, cs, after) \<Rightarrow> (Inr (m # ms), calls one @ cs, left # after)))"

text \<open>The elements of a list are the objects the list holds; the keys of a mapping and
  the characters of a string come out of the iteration as new strings.\<close>

definition elements_put :: "pyval \<Rightarrow> pyval \<Rightarrow> pyval list \<Rightarrow> pyval" where
  "elements_put config model_list after =
     (case model_list of
        PList xs \<Rightarrow> put_nested config [''model_list''] (PList after)
      | _ \<Rightarrow> config)"

definition load_model_list :: "'x env \<Rightarrow> pyval \<Rightarrow> 'x list outcome" where
  "load_model_list env config =
     (case py_getitem config ''model_list'' of
        Inl e \<Rightarrow> raises e [] config
      | Inr model_list \<Rightarrow>
          (case py_iter model_list of
             Inl e \<Rightarrow> raises e [] config
           | Inr uris \<Rightarrow>
               (case load_each env uris of
                  (Inl e, cs, after) \<Rightarrow> raises e cs (elements_put config model_list after)
                | (Inr ms, cs, after) \<Rightarrow> returns ms cs (elements_put config model_list after))))"




text \<open>Lines 218 and 219. The argument is the URI, not a configuration.\<close>

definition model_uri_to_version :: "'x env \<Rightarrow> pyval \<Rightarrow> (error + string) \<times> call list" where
  "model_uri_to_version env model_uri =
     (case get_model_info env model_uri of
        Inl e \<Rightarrow> (Inl e, [Get_model_info model_uri])
      | Inr model_info \<Rightarrow> (Inr (run_id model_info), [Get_model_info model_uri]))"

section \<open>An example environment and example configurations\<close>

text \<open>
  \<open>os.path.join\<close> on POSIX, for two components: an absolute second component
  replaces the first, otherwise the two are joined with one separator.
\<close>

fun posix_join :: "pyval \<Rightarrow> pyval \<Rightarrow> error + pyval" where
  "posix_join (PStr a) (PStr b) =
     Inr (PStr (if take 1 b = ''/'' then b
                else if a = [] \<or> last a = CHR ''/'' then a @ b
                else a @ ''/'' @ b))"
| "posix_join a b = Inl TypeError"

text \<open>
  The keyword names of scikit-learn's \<open>KNeighborsClassifier\<close>.
\<close>

definition knn_keywords :: "string list" where
  "knn_keywords = [''n_neighbors'', ''weights'', ''algorithm'', ''leaf_size'', ''p'', ''metric'',
                   ''metric_params'', ''n_jobs'']"

text \<open>
  A registry that holds two models, and a directory \<open>/data\<close> with a class-weights file
  and a cost-matrix file. The registry entry is the one of the docstring of
  \<open>model_uri_to_version\<close>. \<open>KNeighborsClassifier\<close> raises on a keyword it does not
  have; the other constructors of the example accept what they get, and every
  collaborator leaves what it is handed as it was.
\<close>

definition example_env :: "string env" where
  "example_env =
     \<lparr>strict_lookup = False,
      pyfunc_load_model = (\<lambda>u. if u = PStr ''runs:/abc123def/model''
                                then Inr (PyFuncModel ''estimator of abc123def'')
                                else if u = PStr ''runs:/0ffe77/model''
                                then Inr (PyFuncModel ''estimator of 0ffe77'')
                                else Inl (ExternalError ''no such model'')),
      get_model_info = (\<lambda>u. if u = PStr ''runs:/abc123def/model''
                             then Inr \<lparr>run_id = ''abc123def''\<rparr>
                             else Inl (ExternalError ''no such model'')),
      os_path_join = posix_join,
      read_class_weights_from_file = (\<lambda>p. if p = PStr ''/data/weights.csv''
                                           then Inr ''weights table''
                                           else Inl (ExternalError ''no such file'')),
      read_cost_matrix_from_file = (\<lambda>p. if p = PStr ''/data/costs.csv''
                                         then Inr ''cost matrix''
                                         else Inl (ExternalError ''no such file'')),
      sklearn_raises = (\<lambda>b. case b of
                              KNeighborsClassifier kw \<Rightarrow>
                                if set (map fst kw) \<subseteq> set knn_keywords then None
                                else Some TypeError
                            | _ \<Rightarrow> None),
      architecture_raises = (\<lambda>p. None),
      leaves = (\<lambda>c v. v)\<rparr>"

text \<open>
  The same environment with a \<open>TF_IDF_XGBoost_Classifier\<close> that fills in a default in
  the parameters it is given.
\<close>

definition meddling_env :: "string env" where
  "meddling_env =
     example_env\<lparr>leaves := (\<lambda>c v. case (c, v) of
                                   (TF_IDF_XGBoost_Classifier_init, PDict kw) \<Rightarrow>
                                     PDict (kw @ [(''n_jobs'', PInt 1)])
                                 | _ \<Rightarrow> v)\<rparr>"

definition cfg_uri :: pyval where
  "cfg_uri = PDict [(''model'', PDict [(''uri'', PStr ''runs:/abc123def/model'')])]"

definition cfg_empty_model :: pyval where
  "cfg_empty_model = PDict [(''model'', PDict [(''name'', PStr ''m'')])]"

definition cfg_unknown :: pyval where
  "cfg_unknown = PDict [(''model'', PDict [(''type'', PStr ''TF-IDF-LSTM'')])]"

definition cfg_unknown_cw :: pyval where
  "cfg_unknown_cw =
     PDict [(''model'', PDict [(''type'', PStr ''TF-IDF-LSTM''), (''class_weights'', PDict [])])]"

definition cfg_knn :: pyval where
  "cfg_knn = PDict [(''global'', PDict [(''root_path'', PStr ''/data'')]),
                    (''model'', PDict [(''type'', PStr ''TF-IDF-KNN''), (''name'', PStr ''knn''),
                                       (''parameters'', PDict [(''n_neighbors'', PInt 3)])])]"

definition cfg_knn_bogus :: pyval where
  "cfg_knn_bogus =
     PDict [(''model'', PDict [(''type'', PStr ''TF-IDF-KNN''), (''name'', PStr ''knn''),
                               (''parameters'', PDict [(''bogus'', PInt 1)])])]"

definition cfg_xgb :: pyval where
  "cfg_xgb =
     PDict [(''global'', PDict [(''root_path'', PStr ''/data'')]),
            (''model'', PDict [(''type'', PStr ''TF-IDF-XGBoost''), (''name'', PStr ''xgb''),
                               (''parameters'', PDict [(''max_depth'', PInt 6)]),
                               (''cost_matrix'', PStr ''costs.csv'')])]"

definition cfg_knn_no_file :: pyval where
  "cfg_knn_no_file =
     PDict [(''global'', PDict [(''root_path'', PStr ''/data'')]),
            (''model'', PDict [(''type'', PStr ''TF-IDF-KNN''), (''name'', PStr ''knn''),
                               (''parameters'', PDict [(''n_neighbors'', PInt 3)]),
                               (''class_weights'',
                                  PDict [(''relative_or_absolute'', PStr ''relative'')])])]"

definition cfg_knn_weights :: pyval where
  "cfg_knn_weights =
     PDict [(''global'', PDict [(''root_path'', PStr ''/data'')]),
            (''model'', PDict [(''type'', PStr ''TF-IDF-KNN''), (''name'', PStr ''knn''),
                               (''parameters'', PDict [(''n_neighbors'', PInt 3)]),
                               (''class_weights'', PDict [(''file_path'', PStr ''weights.csv'')])])]"

definition cfg_svm_no_file :: pyval where
  "cfg_svm_no_file =
     PDict [(''model'', PDict [(''type'', PStr ''TF-IDF-SVM''),
                               (''class_weights'',
                                  PDict [(''relative_or_absolute'', PStr ''relative'')])])]"

definition cfg_weights_no_type :: pyval where
  "cfg_weights_no_type =
     PDict [(''model'', PDict [(''class_weights'',
                                  PDict [(''relative_or_absolute'', PStr ''relative'')])])]"

definition three_uris :: "pyval list" where
  "three_uris = [PStr ''runs:/abc123def/model'', PStr ''runs:/0ffe77/model'',
                 PStr ''runs:/abc123def/model'']"

definition cfg_list :: pyval where
  "cfg_list = PDict [(''model_list'', PList three_uris)]"

definition cfg_list_missing :: pyval where
  "cfg_list_missing =
     PDict [(''model_list'', PList [PStr ''runs:/abc123def/model'', PStr ''runs:/missing/model'',
                                    PStr ''runs:/0ffe77/model''])]"

text \<open>
  The six type tags of the dispatch of \<open>setup_model\<close> (lines 83, 86, 91, 96, 105, 112).
\<close>

definition known_types :: "string list" where
  "known_types = [''TF-IDF-KNN'', ''TF-IDF-SVM'', ''TF-IDF-RF'', ''TF-IDF-XGBoost'',
                  ''TextPreprocessor'', ''Relabeller'']"

text \<open>
  The configuration with \<open>model.class_weights.relative_or_absolute\<close> set to \<open>v\<close>
  and everything else as it is. It applies to a configuration whose \<open>model\<close> and
  \<open>model.class_weights\<close> are mappings, and leaves any other configuration alone.
\<close>

definition with_relative_or_absolute :: "pyval \<Rightarrow> pyval \<Rightarrow> pyval" where
  "with_relative_or_absolute v config =
     (case config of
        PDict g \<Rightarrow>
          (case map_of g ''model'' of
             Some (PDict m) \<Rightarrow>
               (case map_of m ''class_weights'' of
                  Some (PDict cw) \<Rightarrow>
                    PDict (AList.update ''model''
                      (PDict (AList.update ''class_weights''
                         (PDict (AList.update ''relative_or_absolute'' v cw)) m)) g)
                | _ \<Rightarrow> config)
           | _ \<Rightarrow> config)
      | _ \<Rightarrow> config)"

section \<open>Properties\<close>

subsection \<open>Lookups\<close>

text \<open>
  A lookup that succeeds keeps succeeding for another last key and another default: the
  strict helper fails only where it meets a value that is not a mapping.
\<close>

lemma get_nested_one_ok:
  "get_nested s c [a] d = Inr v \<Longrightarrow> \<exists>v'. get_nested s c [b] d' = Inr v'"
  by (cases c) (auto split: option.splits if_splits)

lemma get_nested_two_ok:
  "get_nested s c [a, b] d = Inr v \<Longrightarrow> \<exists>v'. get_nested s c [a, b'] d' = Inr v'"
  apply (cases c)
  apply (auto split: option.splits if_splits)
  subgoal for kvs x by (cases x) (auto split: option.splits if_splits)
  done






subsection \<open>\<open>setup_model\<close> with a URI\<close>

text \<open>
  Claim C1 says that \<open>setup_model\<close>, given a configuration with \<open>model.uri\<close>, returns
  the estimator the registry holds for that URI, as \<open>load_model\<close> on the same
  configuration does. Line 58 calls \<open>load_model(model_uri)\<close>: the URI string takes the
  place of the configuration, the lookup of \<open>model.uri\<close> inside a string finds nothing,
  and the call raises before the registry is asked. For every configuration whose
  \<open>model.uri\<close> is a string, \<open>setup_model\<close> raises and makes no external call, while
  \<open>load_model\<close> on that configuration asks the registry for the URI.
\<close>

theorem setup_model_uri_never_loads:
  assumes "get_nested (strict_lookup env) config [''model'', ''uri''] PNone = Inr (PStr u)"
  shows "(\<exists>e. result (setup_model env config) = Inl e) \<and> calls (setup_model env config) = []
     \<and> calls (load_model env config) = [Load_model (PStr u)]"
  using assms
  by (auto simp: setup_model_def load_model_def raises_def returns_def Let_def
        split: sum.splits if_splits)

theorem setup_model_uri_never_loads_witness:
  "get_nested (strict_lookup example_env) cfg_uri [''model'', ''uri''] PNone
     = Inr (PStr ''runs:/abc123def/model'')
   \<and> (\<exists>e. result (setup_model example_env cfg_uri) = Inl e)
   \<and> calls (setup_model example_env cfg_uri) = []
   \<and> calls (load_model example_env cfg_uri) = [Load_model (PStr ''runs:/abc123def/model'')]
   \<and> result (setup_model example_env cfg_uri) = Inl (ValueError [Text ''Model uri not provided.''])
   \<and> result (setup_model (example_env\<lparr>strict_lookup := True\<rparr>) cfg_uri) = Inl TypeError
   \<and> result (load_model example_env cfg_uri) = Inr ''estimator of abc123def''"
proof -
  have h: "get_nested (strict_lookup example_env) cfg_uri [''model'', ''uri''] PNone
     = Inr (PStr ''runs:/abc123def/model'')"
    by (simp add: cfg_uri_def)
  have lenient: "result (setup_model example_env cfg_uri)
      = Inl (ValueError [Text ''Model uri not provided.''])"
    by (simp add: cfg_uri_def example_env_def setup_model_def load_model_def raises_def)
  have strict: "result (setup_model (example_env\<lparr>strict_lookup := True\<rparr>) cfg_uri) = Inl TypeError"
    by (simp add: cfg_uri_def example_env_def setup_model_def load_model_def raises_def)
  have intended: "result (load_model example_env cfg_uri) = Inr ''estimator of abc123def''"
    by (simp add: cfg_uri_def example_env_def load_model_def returns_def)
  show ?thesis
    using h lenient strict intended setup_model_uri_never_loads [OF h] by simp
qed

subsection \<open>\<open>setup_model\<close> without a URI\<close>

text \<open>
  Claim C2: a configuration in which \<open>model.uri\<close> and \<open>model.type\<close> are both absent
  (both lookups give \<open>None\<close>) makes \<open>setup_model\<close> raise; no model is returned and no
  external call is made.
\<close>

theorem setup_model_without_uri_and_type:
  assumes "get_nested (strict_lookup env) config [''model'', ''uri''] PNone = Inr PNone"
      and "get_nested (strict_lookup env) config [''model'', ''type''] PNone = Inr PNone"
  shows "(\<exists>e. result (setup_model env config) = Inl e) \<and> calls (setup_model env config) = []"
  using assms
  by (auto simp: setup_model_def raises_def split: sum.splits)

theorem setup_model_without_uri_and_type_witness:
  "get_nested (strict_lookup example_env) cfg_empty_model [''model'', ''uri''] PNone = Inr PNone
   \<and> get_nested (strict_lookup example_env) cfg_empty_model [''model'', ''type''] PNone = Inr PNone
   \<and> (\<exists>e. result (setup_model example_env cfg_empty_model) = Inl e)
   \<and> calls (setup_model example_env cfg_empty_model) = []"
proof -
  have h1: "get_nested (strict_lookup example_env) cfg_empty_model [''model'', ''uri''] PNone = Inr PNone"
    by (simp add: cfg_empty_model_def)
  have h2: "get_nested (strict_lookup example_env) cfg_empty_model [''model'', ''type''] PNone = Inr PNone"
    by (simp add: cfg_empty_model_def)
  show ?thesis using h1 h2 setup_model_without_uri_and_type [OF h1 h2] by simp
qed

text \<open>
  Claim C3, as amended: for a configuration with no \<open>model.uri\<close>, whose \<open>model.type\<close>
  is a string outside the six tags and whose class-weights options are absent or are
  read without error, \<open>setup_model\<close> raises
  \<open>ValueError(f"Model type {model_type} not recognized.")\<close>, which names the string.
  The class-weights options are handled before the dispatch (lines 67 to 81), so without
  the last condition their error comes first: the configuration
  \<open>{'model': {'type': 'TF-IDF-LSTM', 'class_weights': {}}}\<close> raises
  "Class weights file path not provided.".
\<close>

theorem setup_model_unrecognized_type:
  assumes "get_nested (strict_lookup env) config [''global'', ''root_path''] (PStr []) = Inr path_prefix"
      and "get_nested (strict_lookup env) config [''model'', ''uri''] PNone = Inr PNone"
      and "get_nested (strict_lookup env) config [''model'', ''type''] PNone = Inr (PStr t)"
      and "t \<notin> set known_types"
      and "fst (class_weights_options env config path_prefix) = Inr w"
  shows "result (setup_model env config)
           = Inl (ValueError [Text ''Model type '', Format (PStr t), Text '' not recognized.''])"
proof -
  obtain n where n: "get_nested (strict_lookup env) config [''model'', ''name''] PNone = Inr n"
    using get_nested_two_ok [OF assms(3)] by blast
  obtain p where p: "get_nested (strict_lookup env) config [''model'', ''parameters''] (PDict []) = Inr p"
    using get_nested_two_ok [OF assms(3)] by blast
  obtain cs where cw: "class_weights_options env config path_prefix = (Inr w, cs)"
    using assms(5) by (cases "class_weights_options env config path_prefix") simp
  have b: "build_model env config path_prefix (PStr t) n p w
             = (Inl (ValueError [Text ''Model type '', Format (PStr t), Text '' not recognized.'']),
                [], config)"
    using assms(4) by (auto simp: build_model_def known_types_def)
  show ?thesis
    by (simp add: setup_model_def assms(1,2,3) n p cw b raises_def)
qed

theorem setup_model_unrecognized_type_witness:
  "get_nested (strict_lookup example_env) cfg_unknown [''global'', ''root_path''] (PStr []) = Inr (PStr [])
   \<and> get_nested (strict_lookup example_env) cfg_unknown [''model'', ''uri''] PNone = Inr PNone
   \<and> get_nested (strict_lookup example_env) cfg_unknown [''model'', ''type''] PNone
       = Inr (PStr ''TF-IDF-LSTM'')
   \<and> ''TF-IDF-LSTM'' \<notin> set known_types
   \<and> fst (class_weights_options example_env cfg_unknown (PStr [])) = Inr None
   \<and> result (setup_model example_env cfg_unknown)
       = Inl (ValueError [Text ''Model type '', Format (PStr ''TF-IDF-LSTM''),
                          Text '' not recognized.''])"
proof -
  have h1: "get_nested (strict_lookup example_env) cfg_unknown [''global'', ''root_path''] (PStr []) = Inr (PStr [])"
    by (simp add: cfg_unknown_def)
  have h2: "get_nested (strict_lookup example_env) cfg_unknown [''model'', ''uri''] PNone = Inr PNone"
    by (simp add: cfg_unknown_def)
  have h3: "get_nested (strict_lookup example_env) cfg_unknown [''model'', ''type''] PNone
       = Inr (PStr ''TF-IDF-LSTM'')"
    by (simp add: cfg_unknown_def)
  have h4: "''TF-IDF-LSTM'' \<notin> set known_types"
    by (simp add: known_types_def)
  have h5: "fst (class_weights_options example_env cfg_unknown (PStr [])) = Inr None"
    by (simp add: cfg_unknown_def class_weights_options_def)
  show ?thesis
    using h1 h2 h3 h4 h5 setup_model_unrecognized_type [OF h1 h2 h3 h4 h5] by simp
qed

text \<open>
  Without the condition on the class-weights options the error names no type: the
  configuration \<open>{'model': {'type': 'TF-IDF-LSTM', 'class_weights': {}}}\<close> has an
  unrecognized type and raises the error of line 78.
\<close>

theorem setup_model_unrecognized_type_counterexample:
  "get_nested (strict_lookup example_env) cfg_unknown_cw [''model'', ''type''] PNone
     = Inr (PStr ''TF-IDF-LSTM'')
   \<and> ''TF-IDF-LSTM'' \<notin> set known_types
   \<and> result (setup_model example_env cfg_unknown_cw)
       = Inl (ValueError [Text ''Class weights file path not provided.''])"
  by (simp add: cfg_unknown_cw_def known_types_def example_env_def setup_model_def
        class_weights_options_def raises_def)

text \<open>
  Claim C4, as amended: for a configuration with no \<open>model.uri\<close>, with
  \<open>model.type = "TF-IDF-KNN"\<close>, a parameters mapping that \<open>KNeighborsClassifier\<close> accepts
  as keyword arguments, and class-weights options that are absent or are read without
  error, \<open>setup_model\<close> returns a \<open>TF_IDF_Classifier\<close> whose baseline classifier is
  \<open>KNeighborsClassifier(**parameters)\<close> and whose model name is \<open>model.name\<close>.
\<close>

theorem setup_model_builds_knn_classifier:
  assumes "get_nested (strict_lookup env) config [''global'', ''root_path''] (PStr []) = Inr path_prefix"
      and "get_nested (strict_lookup env) config [''model'', ''uri''] PNone = Inr PNone"
      and "get_nested (strict_lookup env) config [''model'', ''type''] PNone = Inr (PStr ''TF-IDF-KNN'')"
      and "get_nested (strict_lookup env) config [''model'', ''name''] PNone = Inr name"
      and "get_nested (strict_lookup env) config [''model'', ''parameters''] (PDict []) = Inr (PDict kw)"
      and "fst (class_weights_options env config path_prefix) = Inr w"
      and "sklearn_raises env (KNeighborsClassifier kw) = None"
  shows "\<exists>cw. result (setup_model env config)
                = Inr (TF_IDF_Classifier (KNeighborsClassifier kw) name cw)"
proof -
  obtain cs where cw: "class_weights_options env config path_prefix = (Inr w, cs)"
    using assms(6) by (cases "class_weights_options env config path_prefix") simp
  obtain after where b:
    "build_model env config path_prefix (PStr ''TF-IDF-KNN'') name (PDict kw) w
       = (Inr (TF_IDF_Classifier (KNeighborsClassifier kw) name None), [], after)"
    by (simp add: build_model_def construct_def assms(7))
  have "result (setup_model env config)
          = Inr (TF_IDF_Classifier (KNeighborsClassifier kw) name None)"
    by (simp add: setup_model_def assms(1-5) cw b returns_def)
  then show ?thesis by blast
qed

theorem setup_model_builds_knn_classifier_witness:
  "get_nested (strict_lookup example_env) cfg_knn [''global'', ''root_path''] (PStr [])
       = Inr (PStr ''/data'')
   \<and> get_nested (strict_lookup example_env) cfg_knn [''model'', ''uri''] PNone = Inr PNone
   \<and> get_nested (strict_lookup example_env) cfg_knn [''model'', ''type''] PNone
       = Inr (PStr ''TF-IDF-KNN'')
   \<and> get_nested (strict_lookup example_env) cfg_knn [''model'', ''name''] PNone = Inr (PStr ''knn'')
   \<and> get_nested (strict_lookup example_env) cfg_knn [''model'', ''parameters''] (PDict [])
       = Inr (PDict [(''n_neighbors'', PInt 3)])
   \<and> fst (class_weights_options example_env cfg_knn (PStr ''/data'')) = Inr None
   \<and> sklearn_raises example_env (KNeighborsClassifier [(''n_neighbors'', PInt 3)]) = None
   \<and> (\<exists>cw. result (setup_model example_env cfg_knn)
         = Inr (TF_IDF_Classifier (KNeighborsClassifier [(''n_neighbors'', PInt 3)])
                  (PStr ''knn'') cw))"
proof -
  have h1: "get_nested (strict_lookup example_env) cfg_knn [''global'', ''root_path''] (PStr [])
       = Inr (PStr ''/data'')"
    by (simp add: cfg_knn_def)
  have h2: "get_nested (strict_lookup example_env) cfg_knn [''model'', ''uri''] PNone = Inr PNone"
    by (simp add: cfg_knn_def)
  have h3: "get_nested (strict_lookup example_env) cfg_knn [''model'', ''type''] PNone
       = Inr (PStr ''TF-IDF-KNN'')"
    by (simp add: cfg_knn_def)
  have h4: "get_nested (strict_lookup example_env) cfg_knn [''model'', ''name''] PNone = Inr (PStr ''knn'')"
    by (simp add: cfg_knn_def)
  have h5: "get_nested (strict_lookup example_env) cfg_knn [''model'', ''parameters''] (PDict [])
       = Inr (PDict [(''n_neighbors'', PInt 3)])"
    by (simp add: cfg_knn_def)
  have h6: "fst (class_weights_options example_env cfg_knn (PStr ''/data'')) = Inr (None :: string option)"
    by (simp add: cfg_knn_def class_weights_options_def)
  have h7: "sklearn_raises example_env (KNeighborsClassifier [(''n_neighbors'', PInt 3)]) = None"
    by (simp add: example_env_def knn_keywords_def)
  show ?thesis
    using h1 h2 h3 h4 h5 h6 h7 setup_model_builds_knn_classifier [OF h1 h2 h3 h4 h5 h6 h7]
    by simp
qed

text \<open>
  Without the condition on the class-weights options no classifier is returned: a
  \<open>TF-IDF-KNN\<close> configuration with parameters, whose \<open>model.class_weights\<close> has no
  \<open>file_path\<close>, raises the error of line 78. Without the condition on the parameters
  none is returned either: \<open>KNeighborsClassifier(bogus = 1)\<close> is a \<open>TypeError\<close>.
\<close>

theorem setup_model_builds_knn_classifier_counterexample:
  "get_nested (strict_lookup example_env) cfg_knn_no_file [''model'', ''uri''] PNone = Inr PNone
   \<and> get_nested (strict_lookup example_env) cfg_knn_no_file [''model'', ''type''] PNone
       = Inr (PStr ''TF-IDF-KNN'')
   \<and> get_nested (strict_lookup example_env) cfg_knn_no_file [''model'', ''parameters''] (PDict [])
       = Inr (PDict [(''n_neighbors'', PInt 3)])
   \<and> result (setup_model example_env cfg_knn_no_file)
       = Inl (ValueError [Text ''Class weights file path not provided.''])
   \<and> get_nested (strict_lookup example_env) cfg_knn_bogus [''model'', ''uri''] PNone = Inr PNone
   \<and> get_nested (strict_lookup example_env) cfg_knn_bogus [''model'', ''type''] PNone
       = Inr (PStr ''TF-IDF-KNN'')
   \<and> get_nested (strict_lookup example_env) cfg_knn_bogus [''model'', ''parameters''] (PDict [])
       = Inr (PDict [(''bogus'', PInt 1)])
   \<and> result (setup_model example_env cfg_knn_bogus) = Inl TypeError"
  by (simp add: cfg_knn_no_file_def cfg_knn_bogus_def example_env_def knn_keywords_def
        setup_model_def class_weights_options_def build_model_def construct_def
        handed_values_def raises_def)

text \<open>
  Claim C7, as amended: for a configuration with no \<open>model.uri\<close> and with a
  \<open>model.type\<close>, in which \<open>model.class_weights\<close> is present and its \<open>file_path\<close> is
  absent, \<open>setup_model\<close> raises "Class weights file path not provided." and makes no
  external call: the class-weights file is not read. Without a \<open>model.type\<close> the error of
  line 62 comes first: \<open>{'model': {'class_weights': {'relative_or_absolute': 'relative'}}}\<close>
  raises "Model type not provided.".
\<close>

theorem setup_model_missing_file_path:
  assumes "get_nested (strict_lookup env) config [''global'', ''root_path''] (PStr []) = Inr path_prefix"
      and "get_nested (strict_lookup env) config [''model'', ''uri''] PNone = Inr PNone"
      and "get_nested (strict_lookup env) config [''model'', ''type''] PNone = Inr model_type"
      and "model_type \<noteq> PNone"
      and "get_nested (strict_lookup env) config [''model'', ''class_weights''] PNone = Inr cw"
      and "cw \<noteq> PNone"
      and "get_nested (strict_lookup env) cw [''file_path''] PNone = Inr PNone"
  shows "result (setup_model env config) = Inl (ValueError [Text ''Class weights file path not provided.''])
       \<and> calls (setup_model env config) = []"
proof -
  obtain n where n: "get_nested (strict_lookup env) config [''model'', ''name''] PNone = Inr n"
    using get_nested_two_ok [OF assms(3)] by blast
  obtain p where p: "get_nested (strict_lookup env) config [''model'', ''parameters''] (PDict []) = Inr p"
    using get_nested_two_ok [OF assms(3)] by blast
  obtain r where r: "get_nested (strict_lookup env) cw [''relative_or_absolute''] (PStr ''absolute'') = Inr r"
    using get_nested_one_ok [OF assms(7)] by blast
  have c: "class_weights_options env config path_prefix
             = (Inl (ValueError [Text ''Class weights file path not provided.'']), [])"
    by (simp add: class_weights_options_def assms(5,6,7) r)
  show ?thesis
    using assms(4) by (simp add: setup_model_def assms(1,2,3) n p c raises_def)
qed

theorem setup_model_missing_file_path_witness:
  "get_nested (strict_lookup example_env) cfg_svm_no_file [''global'', ''root_path''] (PStr [])
       = Inr (PStr [])
   \<and> get_nested (strict_lookup example_env) cfg_svm_no_file [''model'', ''uri''] PNone = Inr PNone
   \<and> get_nested (strict_lookup example_env) cfg_svm_no_file [''model'', ''type''] PNone
       = Inr (PStr ''TF-IDF-SVM'')
   \<and> PStr ''TF-IDF-SVM'' \<noteq> PNone
   \<and> get_nested (strict_lookup example_env) cfg_svm_no_file [''model'', ''class_weights''] PNone
       = Inr (PDict [(''relative_or_absolute'', PStr ''relative'')])
   \<and> PDict [(''relative_or_absolute'', PStr ''relative'')] \<noteq> PNone
   \<and> get_nested (strict_lookup example_env) (PDict [(''relative_or_absolute'', PStr ''relative'')])
        [''file_path''] PNone = Inr PNone
   \<and> result (setup_model example_env cfg_svm_no_file)
       = Inl (ValueError [Text ''Class weights file path not provided.''])
   \<and> calls (setup_model example_env cfg_svm_no_file) = []"
proof -
  have h1: "get_nested (strict_lookup example_env) cfg_svm_no_file [''global'', ''root_path''] (PStr [])
       = Inr (PStr [])"
    by (simp add: cfg_svm_no_file_def)
  have h2: "get_nested (strict_lookup example_env) cfg_svm_no_file [''model'', ''uri''] PNone = Inr PNone"
    by (simp add: cfg_svm_no_file_def)
  have h3: "get_nested (strict_lookup example_env) cfg_svm_no_file [''model'', ''type''] PNone
       = Inr (PStr ''TF-IDF-SVM'')"
    by (simp add: cfg_svm_no_file_def)
  have h4: "PStr ''TF-IDF-SVM'' \<noteq> PNone" by simp
  have h5: "get_nested (strict_lookup example_env) cfg_svm_no_file [''model'', ''class_weights''] PNone
       = Inr (PDict [(''relative_or_absolute'', PStr ''relative'')])"
    by (simp add: cfg_svm_no_file_def)
  have h6: "PDict [(''relative_or_absolute'', PStr ''relative'')] \<noteq> PNone" by simp
  have h7: "get_nested (strict_lookup example_env) (PDict [(''relative_or_absolute'', PStr ''relative'')])
        [''file_path''] PNone = Inr PNone"
    by simp
  show ?thesis
    using h1 h2 h3 h5 h7 setup_model_missing_file_path [OF h1 h2 h3 h4 h5 h6 h7] by simp
qed

text \<open>
  Without a \<open>model.type\<close> the error is the one of line 62, which does not name the
  file path.
\<close>

theorem setup_model_missing_file_path_counterexample:
  "get_nested (strict_lookup example_env) cfg_weights_no_type [''model'', ''class_weights''] PNone
       = Inr (PDict [(''relative_or_absolute'', PStr ''relative'')])
   \<and> get_nested (strict_lookup example_env) (PDict [(''relative_or_absolute'', PStr ''relative'')])
        [''file_path''] PNone = Inr PNone
   \<and> result (setup_model example_env cfg_weights_no_type)
       = Inl (ValueError [Text ''Model type not provided.''])"
  by (simp add: cfg_weights_no_type_def example_env_def setup_model_def raises_def)




subsection \<open>The list and metadata helpers\<close>

text \<open>
  On the fresh configuration \<open>{'model': {'uri': u}}\<close> the lookup gives \<open>u\<close>, so
  \<open>load_model\<close> is the registry call and the unwrapping.
\<close>

lemma load_model_fresh:
  "u \<noteq> PNone \<Longrightarrow>
   result (load_model env (PDict [(''model'', PDict [(''uri'', u)])]))
     = map_sum id python_model_model (pyfunc_load_model env u)
   \<and> calls (load_model env (PDict [(''model'', PDict [(''uri'', u)])])) = [Load_model u]"
  by (simp add: load_model_def raises_def returns_def Let_def split: sum.splits)

lemma load_each_all_ok:
  "PNone \<notin> set uris \<Longrightarrow> \<forall>u\<in>set uris. \<exists>m. pyfunc_load_model env u = Inr m \<Longrightarrow>
   \<exists>after. load_each env uris =
     (Inr (map (\<lambda>u. python_model_model (projr (pyfunc_load_model env u))) uris),
      map Load_model uris, after)"
proof (induction uris)
  case Nil
  then show ?case by simp
next
  case (Cons u us)
  then obtain m where m: "pyfunc_load_model env u = Inr m" by auto
  from Cons have u: "u \<noteq> PNone" by auto
  from Cons obtain after where ih: "load_each env us =
     (Inr (map (\<lambda>u. python_model_model (projr (pyfunc_load_model env u))) us),
      map Load_model us, after)"
    by auto
  show ?case using load_model_fresh [OF u, of env] by (simp add: m ih Let_def)
qed

lemma load_each_first_failure:
  "PNone \<notin> set pre \<Longrightarrow> u \<noteq> PNone \<Longrightarrow> \<forall>v\<in>set pre. \<exists>m. pyfunc_load_model env v = Inr m \<Longrightarrow>
   pyfunc_load_model env u = Inl e \<Longrightarrow>
   \<exists>after. load_each env (pre @ u # post) = (Inl e, map Load_model (pre @ [u]), after)"
proof (induction pre)
  case Nil
  then show ?case using load_model_fresh [of u env] by (simp add: Let_def)
next
  case (Cons v vs)
  then obtain m where m: "pyfunc_load_model env v = Inr m" by auto
  from Cons have v: "v \<noteq> PNone" by auto
  from Cons obtain after where ih:
    "load_each env (vs @ u # post) = (Inl e, map Load_model (vs @ [u]), after)"
    by auto
  show ?case using load_model_fresh [OF v, of env] by (simp add: m ih Let_def)
qed

text \<open>
  Claim C5: for a configuration whose \<open>model_list\<close> is a list of URIs, if the registry
  has a model for every URI then \<open>load_model_list\<close> returns a list of the same length
  whose \<open>i\<close>-th element is the estimator of the \<open>i\<close>-th URI, after one registry call
  per URI, in order; and if some URI fails, the call raises the error of the first such
  URI (the result is that error, not a partial list) and no later URI is asked for.
\<close>

theorem load_model_list_in_order:
  assumes "py_getitem config ''model_list'' = Inr (PList uris)"
      and "PNone \<notin> set uris"
  shows "((\<forall>u\<in>set uris. \<exists>m. pyfunc_load_model env u = Inr m) \<longrightarrow>
            (\<exists>ms. result (load_model_list env config) = Inr ms \<and> length ms = length uris
                \<and> (\<forall>i<length uris. pyfunc_load_model env (uris ! i) = Inr (PyFuncModel (ms ! i)))
                \<and> calls (load_model_list env config) = map Load_model uris))
       \<and> (\<forall>pre u post e.
             uris = pre @ u # post \<and> (\<forall>v\<in>set pre. \<exists>m. pyfunc_load_model env v = Inr m)
               \<and> pyfunc_load_model env u = Inl e \<longrightarrow>
             result (load_model_list env config) = Inl e
               \<and> calls (load_model_list env config) = map Load_model (pre @ [u]))"
proof (intro conjI impI allI)
  assume ok: "\<forall>u\<in>set uris. \<exists>m. pyfunc_load_model env u = Inr m"
  let ?ms = "map (\<lambda>u. python_model_model (projr (pyfunc_load_model env u))) uris"
  obtain after where le: "load_each env uris = (Inr ?ms, map Load_model uris, after)"
    using load_each_all_ok [OF assms(2) ok] by blast
  have r: "result (load_model_list env config) = Inr ?ms"
    by (simp add: load_model_list_def assms(1) le returns_def)
  have c: "calls (load_model_list env config) = map Load_model uris"
    by (simp add: load_model_list_def assms(1) le returns_def)
  have nth: "\<forall>i<length uris. pyfunc_load_model env (uris ! i) = Inr (PyFuncModel (?ms ! i))"
  proof (intro allI impI)
    fix i assume i: "i < length uris"
    then obtain m where "pyfunc_load_model env (uris ! i) = Inr m"
      using ok nth_mem [OF i] by blast
    then show "pyfunc_load_model env (uris ! i) = Inr (PyFuncModel (?ms ! i))"
      using i by simp
  qed
  show "\<exists>ms. result (load_model_list env config) = Inr ms \<and> length ms = length uris
                \<and> (\<forall>i<length uris. pyfunc_load_model env (uris ! i) = Inr (PyFuncModel (ms ! i)))
                \<and> calls (load_model_list env config) = map Load_model uris"
    using r c nth by (intro exI [of _ ?ms]) simp
next
  fix pre u post e
  assume a: "uris = pre @ u # post \<and> (\<forall>v\<in>set pre. \<exists>m. pyfunc_load_model env v = Inr m)
               \<and> pyfunc_load_model env u = Inl e"
  then obtain after where le: "load_each env uris = (Inl e, map Load_model (pre @ [u]), after)"
    using load_each_first_failure [of pre u env e post] assms(2) by auto
  show "result (load_model_list env config) = Inl e"
    by (simp add: load_model_list_def assms(1) le raises_def)
  show "calls (load_model_list env config) = map Load_model (pre @ [u])"
    by (simp add: load_model_list_def assms(1) le raises_def)
qed

theorem load_model_list_in_order_witness:
  "py_getitem cfg_list ''model_list'' = Inr (PList three_uris)
   \<and> PNone \<notin> set three_uris
   \<and> pyfunc_load_model example_env (PStr ''runs:/abc123def/model'')
       = Inr (PyFuncModel ''estimator of abc123def'')
   \<and> pyfunc_load_model example_env (PStr ''runs:/0ffe77/model'')
       = Inr (PyFuncModel ''estimator of 0ffe77'')
   \<and> (\<exists>ms. result (load_model_list example_env cfg_list) = Inr ms \<and> length ms = 3
         \<and> pyfunc_load_model example_env (three_uris ! 0) = Inr (PyFuncModel (ms ! 0))
         \<and> pyfunc_load_model example_env (three_uris ! 1) = Inr (PyFuncModel (ms ! 1))
         \<and> pyfunc_load_model example_env (three_uris ! 2) = Inr (PyFuncModel (ms ! 2))
         \<and> calls (load_model_list example_env cfg_list) = map Load_model three_uris)
   \<and> py_getitem cfg_list_missing ''model_list''
       = Inr (PList [PStr ''runs:/abc123def/model'', PStr ''runs:/missing/model'',
                     PStr ''runs:/0ffe77/model''])
   \<and> pyfunc_load_model example_env (PStr ''runs:/missing/model'')
       = Inl (ExternalError ''no such model'')
   \<and> result (load_model_list example_env cfg_list_missing) = Inl (ExternalError ''no such model'')
   \<and> calls (load_model_list example_env cfg_list_missing)
       = [Load_model (PStr ''runs:/abc123def/model''), Load_model (PStr ''runs:/missing/model'')]"
proof -
  have g1: "py_getitem cfg_list_missing ''model_list''
       = Inr (PList ([PStr ''runs:/abc123def/model''] @ PStr ''runs:/missing/model''
                       # [PStr ''runs:/0ffe77/model'']))"
    by (simp add: cfg_list_missing_def)
  have g2: "PNone \<notin> set ([PStr ''runs:/abc123def/model''] @ PStr ''runs:/missing/model''
                       # [PStr ''runs:/0ffe77/model''])"
    by simp
  have g3: "pyfunc_load_model example_env (PStr ''runs:/missing/model'')
       = Inl (ExternalError ''no such model'')"
    by (simp add: example_env_def)
  have g4: "\<forall>v\<in>set [PStr ''runs:/abc123def/model'']. \<exists>m. pyfunc_load_model example_env v = Inr m"
    by (simp add: example_env_def)
  from load_model_list_in_order [OF g1 g2, of example_env] g3 g4
  have g: "result (load_model_list example_env cfg_list_missing) = Inl (ExternalError ''no such model'')
      \<and> calls (load_model_list example_env cfg_list_missing)
           = map Load_model ([PStr ''runs:/abc123def/model''] @ [PStr ''runs:/missing/model''])"
    by blast
  have h1: "py_getitem cfg_list ''model_list'' = Inr (PList three_uris)"
    by (simp add: cfg_list_def)
  have h2: "PNone \<notin> set three_uris"
    by (simp add: three_uris_def)
  have a: "pyfunc_load_model example_env (PStr ''runs:/abc123def/model'')
       = Inr (PyFuncModel ''estimator of abc123def'')"
    by (simp add: example_env_def)
  have b: "pyfunc_load_model example_env (PStr ''runs:/0ffe77/model'')
       = Inr (PyFuncModel ''estimator of 0ffe77'')"
    by (simp add: example_env_def)
  have h3: "\<forall>u\<in>set three_uris. \<exists>m. pyfunc_load_model example_env u = Inr m"
    using a b by (simp add: three_uris_def)
  have l: "length three_uris = 3"
    by (simp add: three_uris_def)
  from load_model_list_in_order [OF h1 h2, of example_env] h3
  obtain ms where ms: "result (load_model_list example_env cfg_list) = Inr ms"
      "length ms = length three_uris"
      "\<forall>i<length three_uris. pyfunc_load_model example_env (three_uris ! i) = Inr (PyFuncModel (ms ! i))"
      "calls (load_model_list example_env cfg_list) = map Load_model three_uris"
    by blast
  from ms(3) l have
    "pyfunc_load_model example_env (three_uris ! 0) = Inr (PyFuncModel (ms ! 0))"
    "pyfunc_load_model example_env (three_uris ! 1) = Inr (PyFuncModel (ms ! 1))"
    "pyfunc_load_model example_env (three_uris ! 2) = Inr (PyFuncModel (ms ! 2))"
    by simp_all
  then show ?thesis using h1 h2 a b l ms(1,2,4) g1 g3 g by auto
qed

text \<open>
  Claim C6: \<open>model_uri_to_version\<close> asks the registry for the metadata of the URI, once,
  and returns the run identifier recorded there, unchanged.
\<close>

theorem model_uri_to_version_run_id:
  assumes "get_model_info env model_uri = Inr info"
  shows "model_uri_to_version env model_uri = (Inr (run_id info), [Get_model_info model_uri])"
  using assms by (simp add: model_uri_to_version_def)

theorem model_uri_to_version_run_id_witness:
  "get_model_info example_env (PStr ''runs:/abc123def/model'') = Inr \<lparr>run_id = ''abc123def''\<rparr>
   \<and> model_uri_to_version example_env (PStr ''runs:/abc123def/model'')
       = (Inr ''abc123def'', [Get_model_info (PStr ''runs:/abc123def/model'')])"
proof -
  have h: "get_model_info example_env (PStr ''runs:/abc123def/model'') = Inr \<lparr>run_id = ''abc123def''\<rparr>"
    by (simp add: example_env_def)
  show ?thesis using h model_uri_to_version_run_id [OF h] by simp
qed

subsection \<open>The configuration is only read\<close>











text \<open>
  The condition on the collaborators is used: line 104 hands \<open>parameters\<close>, the mapping
  of the configuration itself, to \<open>TF_IDF_XGBoost_Classifier\<close>, and with a constructor
  that fills in a default there the configuration has the new entry afterwards.
\<close>

lemma xgboost_parameters_are_shared:
  "config_after (setup_model meddling_env cfg_xgb) =
     PDict [(''global'', PDict [(''root_path'', PStr ''/data'')]),
            (''model'', PDict [(''type'', PStr ''TF-IDF-XGBoost''), (''name'', PStr ''xgb''),
                               (''parameters'', PDict [(''max_depth'', PInt 6), (''n_jobs'', PInt 1)]),
                               (''cost_matrix'', PStr ''costs.csv'')])]"
  by (simp add: meddling_env_def example_env_def cfg_xgb_def setup_model_def
        class_weights_options_def build_model_def load_cost_matrix_def handed_def
        returns_def)

subsection \<open>\<open>relative_or_absolute\<close> is read and not used\<close>

lemma with_roa_shape:
  "with_relative_or_absolute v config = config
   \<or> (\<exists>g m cw. config = PDict g \<and> map_of g ''model'' = Some (PDict m)
          \<and> map_of m ''class_weights'' = Some (PDict cw)
          \<and> with_relative_or_absolute v config =
                PDict (AList.update ''model''
                      (PDict (AList.update ''class_weights''
                         (PDict (AList.update ''relative_or_absolute'' v cw)) m)) g))"
  by (simp add: with_relative_or_absolute_def split: pyval.splits option.splits)

lemma with_roa_cases:
  obtains (same) "with_relative_or_absolute v config = config"
  | (upd) g m cw where "config = PDict g" "map_of g ''model'' = Some (PDict m)"
      "map_of m ''class_weights'' = Some (PDict cw)"
      "with_relative_or_absolute v config =
         PDict (AList.update ''model''
                      (PDict (AList.update ''class_weights''
                         (PDict (AList.update ''relative_or_absolute'' v cw)) m)) g)"
  using with_roa_shape [of v config] by blast

lemma get_nested_with_roa_other:
  assumes "a \<noteq> ''model'' \<or> b \<noteq> ''class_weights''"
  shows "get_nested s (with_relative_or_absolute v config) [a, b] d = get_nested s config [a, b] d"
proof (cases v config rule: with_roa_cases)
  case same
  then show ?thesis by simp
next
  case (upd g m cw)
  then show ?thesis using assms by (auto simp: update_conv' split: option.splits)
qed

lemma preprocess_stack_of_with_roa:
  "preprocess_stack_of (with_relative_or_absolute v config) = preprocess_stack_of config"
proof (cases v config rule: with_roa_cases)
  case same
  then show ?thesis by simp
next
  case (upd g m cw)
  then show ?thesis
    by (auto simp: preprocess_stack_of_def update_conv' split: option.splits sum.splits)
qed

lemma class_weights_options_with_roa:
  "class_weights_options env (with_relative_or_absolute v config) pp
     = class_weights_options env config pp"
proof (cases v config rule: with_roa_cases)
  case same
  then show ?thesis by simp
next
  case (upd g m cw)
  then show ?thesis
    by (simp add: class_weights_options_def update_conv' split: option.splits)
qed

lemma load_cost_matrix_with_roa:
  "load_cost_matrix env (with_relative_or_absolute v config) pp = load_cost_matrix env config pp"
  by (simp add: load_cost_matrix_def get_nested_with_roa_other)

lemma preprocess_stack_of_handed_with_roa:
  "preprocess_stack_of (handed_values env c [''model'', ''parameters'']
                          (with_relative_or_absolute v config))
     = preprocess_stack_of (handed_values env c [''model'', ''parameters''] config)"
proof (cases v config rule: with_roa_cases)
  case same
  then show ?thesis by simp
next
  case (upd g m cw)
  then show ?thesis
    by (auto simp: preprocess_stack_of_def handed_values_def update_conv'
          split: option.splits sum.splits pyval.splits)
qed

lemma build_model_with_roa:
  "fst (build_model env (with_relative_or_absolute v config) pp t n p w)
     = fst (build_model env config pp t n p w)
   \<and> fst (snd (build_model env (with_relative_or_absolute v config) pp t n p w))
     = fst (snd (build_model env config pp t n p w))"
  by (auto simp: build_model_def Let_def load_cost_matrix_with_roa
        preprocess_stack_of_handed_with_roa split: sum.splits option.splits prod.splits)

lemma setup_model_with_roa:
  "result (setup_model env (with_relative_or_absolute v config)) = result (setup_model env config)
   \<and> calls (setup_model env (with_relative_or_absolute v config)) = calls (setup_model env config)"
  by (simp add: setup_model_def get_nested_with_roa_other class_weights_options_with_roa
        build_model_with_roa raises_def returns_def Let_def split_beta
        split: sum.splits)

lemma with_roa_sets_key:
  assumes "get_nested s config [''model'', ''class_weights''] PNone = Inr (PDict cw)"
  shows "get_nested s (with_relative_or_absolute v config)
           [''model'', ''class_weights'', ''relative_or_absolute''] d = Inr v"
proof (cases config)
  case (PDict g)
  show ?thesis
  proof (cases "map_of g ''model''")
    case None
    then show ?thesis using assms PDict by simp
  next
    case (Some mv)
    show ?thesis
    proof (cases mv)
      case (PDict m)
      then have "map_of m ''class_weights'' = Some (PDict cw)"
        using assms \<open>config = PDict g\<close> Some by (simp split: option.splits)
      then show ?thesis
        using \<open>config = PDict g\<close> Some PDict
        by (simp add: with_relative_or_absolute_def update_conv')
    qed (use assms \<open>config = PDict g\<close> Some in \<open>simp_all split: if_splits\<close>)
  qed
qed (use assms in \<open>simp_all split: if_splits\<close>)

text \<open>
  Claim C9: for a configuration with \<open>model.class_weights\<close> present, two runs of
  \<open>setup_model\<close> that differ only in the value of
  \<open>model.class_weights.relative_or_absolute\<close> give the same result and make the same
  external calls: line 74 reads the value and nothing uses it, the path of the
  class-weights file is \<open>os.path.join(path_prefix, file_path)\<close> in both. The result
  and the calls are also those of the configuration as it was, with or without the key.
\<close>

theorem setup_model_ignores_relative_or_absolute:
  assumes "get_nested (strict_lookup env) config [''model'', ''class_weights''] PNone = Inr (PDict cw)"
  shows "get_nested (strict_lookup env) (with_relative_or_absolute v config)
             [''model'', ''class_weights'', ''relative_or_absolute''] PNone = Inr v
       \<and> get_nested (strict_lookup env) (with_relative_or_absolute w config)
             [''model'', ''class_weights'', ''relative_or_absolute''] PNone = Inr w
       \<and> result (setup_model env (with_relative_or_absolute v config))
           = result (setup_model env (with_relative_or_absolute w config))
       \<and> calls (setup_model env (with_relative_or_absolute v config))
           = calls (setup_model env (with_relative_or_absolute w config))
       \<and> result (setup_model env (with_relative_or_absolute v config))
           = result (setup_model env config)
       \<and> calls (setup_model env (with_relative_or_absolute v config))
           = calls (setup_model env config)"
  using with_roa_sets_key [OF assms] setup_model_with_roa [of env _ config]
  by simp

theorem setup_model_ignores_relative_or_absolute_witness:
  "get_nested (strict_lookup example_env) cfg_knn_weights [''model'', ''class_weights''] PNone
       = Inr (PDict [(''file_path'', PStr ''weights.csv'')])
   \<and> get_nested (strict_lookup example_env)
        (with_relative_or_absolute (PStr ''relative'') cfg_knn_weights)
        [''model'', ''class_weights'', ''relative_or_absolute''] PNone = Inr (PStr ''relative'')
   \<and> get_nested (strict_lookup example_env)
        (with_relative_or_absolute (PStr ''absolute'') cfg_knn_weights)
        [''model'', ''class_weights'', ''relative_or_absolute''] PNone = Inr (PStr ''absolute'')
   \<and> result (setup_model example_env (with_relative_or_absolute (PStr ''relative'') cfg_knn_weights))
       = result (setup_model example_env (with_relative_or_absolute (PStr ''absolute'') cfg_knn_weights))
   \<and> calls (setup_model example_env (with_relative_or_absolute (PStr ''relative'') cfg_knn_weights))
       = calls (setup_model example_env (with_relative_or_absolute (PStr ''absolute'') cfg_knn_weights))
   \<and> result (setup_model example_env (with_relative_or_absolute (PStr ''relative'') cfg_knn_weights))
       = result (setup_model example_env cfg_knn_weights)
   \<and> calls (setup_model example_env (with_relative_or_absolute (PStr ''relative'') cfg_knn_weights))
       = calls (setup_model example_env cfg_knn_weights)"
proof -
  have h: "get_nested (strict_lookup example_env) cfg_knn_weights [''model'', ''class_weights''] PNone
       = Inr (PDict [(''file_path'', PStr ''weights.csv'')])"
    by (simp add: cfg_knn_weights_def)
  show ?thesis
    using h setup_model_ignores_relative_or_absolute
      [OF h, of "PStr ''relative''" "PStr ''absolute''"]
    by blast
qed

end
